theory Spec2Isabelle
  imports Main "HOL-Library.Word"
begin

unbundle bit_operations_syntax

section \<open>JavaScript values and strict equality\<close>

text \<open>
  The values carried by a Variant are JavaScript values. A Number is kept as its IEEE 754
  binary64 bit pattern, so that the two irregular cases of \<open>===\<close> on numbers (NaN is
  unequal to itself, the two zeros are equal) are part of the model. An object (array,
  Date, Buffer, NodeId, ...) is kept as its reference: \<open>===\<close> compares objects by
  identity.
\<close>

datatype jsval =
    JUndefined
  | JNull
  | JBoolean bool
  | JNumber "64 word"
  | JString string
  | JObject nat

definition isNaN :: "64 word \<Rightarrow> bool" where
  "isNaN w = (w AND 0x7FF0000000000000 = 0x7FF0000000000000 \<and> w AND 0x000FFFFFFFFFFFFF \<noteq> 0)"

definition isZero :: "64 word \<Rightarrow> bool" where
  "isZero w = (w AND 0x7FFFFFFFFFFFFFFF = 0)"

definition numberEqual :: "64 word \<Rightarrow> 64 word \<Rightarrow> bool" where
  "numberEqual x y = (\<not> isNaN x \<and> \<not> isNaN y \<and> (x = y \<or> (isZero x \<and> isZero y)))"

text \<open>\<open>value1 === value2\<close>: values of different types are never equal.\<close>

fun strictEquals :: "jsval \<Rightarrow> jsval \<Rightarrow> bool" where
  "strictEquals JUndefined JUndefined = True"
| "strictEquals JNull JNull = True"
| "strictEquals (JBoolean a) (JBoolean b) = (a = b)"
| "strictEquals (JNumber x) (JNumber y) = numberEqual x y"
| "strictEquals (JString s) (JString t) = (s = t)"
| "strictEquals (JObject r) (JObject q) = (r = q)"
| "strictEquals _ _ = False"

text \<open>The type tag of a value, as \<open>typeof\<close> separates them (null apart from objects).\<close>

datatype jstype = TUndefined | TNull | TBoolean | TNumber | TString | TObject

fun typeOf :: "jsval \<Rightarrow> jstype" where
  "typeOf JUndefined = TUndefined"
| "typeOf JNull = TNull"
| "typeOf (JBoolean _) = TBoolean"
| "typeOf (JNumber _) = TNumber"
| "typeOf (JString _) = TString"
| "typeOf (JObject _) = TObject"

text \<open>\<open>function isEqual(value1, value2) { return value1 === value2; }\<close>\<close>

definition isEqual :: "jsval \<Rightarrow> jsval \<Rightarrow> bool" where
  "isEqual value1 value2 = strictEquals value1 value2"

text \<open>
  Modelled from the spec: \<open>utils.isNullOrUndefined\<close> comes from the package
  node-opcua-utils, which is not among the sources. The spec calls a value unknown when it
  is null or undefined.
\<close>

definition isNullOrUndefined :: "jsval \<Rightarrow> bool" where
  "isNullOrUndefined v = (v = JUndefined \<or> v = JNull)"

section \<open>Data values\<close>

text \<open>
  \<open>DataType\<close> (package node-opcua-variant) is the enumeration of the built-in types of
  a Variant; \<open>StatusCodes.Good\<close> (package node-opcua-status-code) is the status code 0.
  The status codes of the table are singletons, one for each code, so the comparison
  \<open>!==\<close> of a status code with \<open>StatusCodes.Good\<close> is the comparison of the codes.
\<close>

datatype DataType =
    Null | Boolean | SByte | Byte | Int16 | UInt16 | Int32 | UInt32 | Int64 | UInt64
  | Float | Double | String | DateTime | Guid | ByteString | XmlElement | NodeId
  | ExpandedNodeId | StatusCode | QualifiedName | LocalizedText | ExtensionObject
  | DataValueType | VariantType | DiagnosticInfo

type_synonym statusCode = "32 word"

definition StatusCodes_Good :: statusCode where
  "StatusCodes_Good = 0"

record Variant =
  dataType :: DataType
  val :: jsval

record DataValue =
  statusCode :: statusCode
  variant :: Variant

section \<open>The alarm\<close>

text \<open>
  The constructors of the file and their chain of prototypes:
  \<open>util.inherits(UAOffNormalAlarm, UADiscreteAlarm)\<close> and
  \<open>util.inherits(UASystemOffNormalAlarm, UAOffNormalAlarm)\<close>.
\<close>

datatype ctor = UADiscreteAlarm | UAOffNormalAlarm | UASystemOffNormalAlarm

type_synonym nodeId = nat

record ConditionEvent =
  transitionName :: string
  isActive :: bool
  message :: string

text \<open>
  The fields of an alarm object that the file reads or writes: its prototype, the value of
  its two-state variable \<open>activeState\<close>, the node ids held by its properties
  \<open>normalState\<close> and \<open>inputNode\<close>, and the conditions it has signalled so far, oldest
  first.
\<close>

record alarm =
  proto :: ctor
  activeState :: bool
  normalState :: nodeId
  inputNode :: nodeId
  conditions :: "ConditionEvent list"

datatype error = Error string | AssertionError string | TypeError string

text \<open>
  Modelled from the spec: \<open>_signalNewCondition\<close> is inherited from the base alarm class,
  which is not among the sources. The spec has it move the alarm to the new active state
  and emit one Condition Event holding the transition name, the active flag and the
  message.
\<close>

definition signalNewCondition :: "alarm \<Rightarrow> string \<Rightarrow> bool \<Rightarrow> string \<Rightarrow> alarm" where
  "signalNewCondition a stateName isActive' msg =
     a\<lparr>activeState := isActive',
       conditions := conditions a @
         [\<lparr>transitionName = stateName, isActive = isActive', message = msg\<rparr>]\<rparr>"

text \<open>\<open>UAOffNormalAlarm.prototype._updateAlarmState\<close>\<close>

definition updateAlarmState :: "alarm \<Rightarrow> jsval \<Rightarrow> jsval \<Rightarrow> alarm" where
  "updateAlarmState a normalStateValue inputValue =
     (if isNullOrUndefined normalStateValue \<or> isNullOrUndefined inputValue
      then a\<lparr>activeState := False\<rparr>
      else
        let isActive' = \<not> isEqual normalStateValue inputValue in
        if isActive' = activeState a then a
        else
          let stateName = (if isActive' then ''Active'' else ''Inactive'')
          in signalNewCondition a stateName isActive' '''')"

section \<open>The address space\<close>

text \<open>
  What the file uses of the address space: the event types it can find, the variables and
  the data value each of them holds, and the listeners of the event \<open>value_changed\<close>,
  in the order of their registration.
\<close>

datatype emitter = Node nodeId | NormalStateProperty

datatype listener =
    InputDataValueChange
  | NormalStateDataValueChange
  | NormalStatePropertyChange

record addressSpace =
  eventTypes :: "string list"
  variables :: "nodeId \<rightharpoonup> DataValue"
  listeners :: "(emitter \<times> listener) list"

record UAVariable =
  nodeId :: nodeId
  dataValue :: DataValue

definition findEventType :: "addressSpace \<Rightarrow> string \<Rightarrow> string option" where
  "findEventType space name = (if name \<in> set (eventTypes space) then Some name else None)"

definition findNode :: "addressSpace \<Rightarrow> nodeId \<Rightarrow> UAVariable option" where
  "findNode space n =
     (case variables space n of
        None \<Rightarrow> None
      | Some dv \<Rightarrow> Some \<lparr>nodeId = n, dataValue = dv\<rparr>)"

definition readValue :: "UAVariable \<Rightarrow> DataValue" where
  "readValue node = dataValue node"

definition on :: "addressSpace \<Rightarrow> emitter \<Rightarrow> listener \<Rightarrow> addressSpace" where
  "on space e l = space\<lparr>listeners := listeners space @ [(e, l)]\<rparr>"

section \<open>The methods of the off-normal alarm\<close>

text \<open>\<open>UAOffNormalAlarm.prototype.getNormalStateNode\<close>: the assertion fails on a node
  that is not found.\<close>

definition getNormalStateNode :: "addressSpace \<Rightarrow> alarm \<Rightarrow> error + UAVariable" where
  "getNormalStateNode space a =
     (case findNode space (normalState a) of
        None \<Rightarrow> Inl (AssertionError ''getNormalStateNode '')
      | Some node \<Rightarrow> Inr node)"

text \<open>\<open>UAOffNormalAlarm.prototype.getNormalStateValue\<close>\<close>

definition getNormalStateValue :: "addressSpace \<Rightarrow> alarm \<Rightarrow> error + jsval" where
  "getNormalStateValue space a =
     (case getNormalStateNode space a of
        Inl e \<Rightarrow> Inl e
      | Inr normalStateNode \<Rightarrow> Inr (val (variant (readValue normalStateNode))))"

text \<open>\<open>UAOffNormalAlarm.prototype.setNormalStateValue\<close>: the result is the alarm after
  a normal return.\<close>

definition setNormalStateValue :: "addressSpace \<Rightarrow> alarm \<Rightarrow> jsval \<Rightarrow> error + alarm" where
  "setNormalStateValue space a v =
     (case getNormalStateNode space a of
        Inl e \<Rightarrow> Inl e
      | Inr normalStateNode \<Rightarrow> Inl (Error ''Not Implemented yet''))"

text \<open>
  Modelled from the spec: \<open>getInputNodeValue\<close> is inherited from the base alarm class,
  which is not among the sources. Section 6 of the spec gives the read of the current
  value of an entity as the interface the alarm consumes; the method reads the value the
  input entity holds, as \<open>getNormalStateValue\<close> does for the normal-state entity, and
  gives null for an input entity that is not found.
\<close>

definition getInputNodeValue :: "addressSpace \<Rightarrow> alarm \<Rightarrow> jsval" where
  "getInputNodeValue space a =
     (case findNode space (inputNode a) of
        None \<Rightarrow> JNull
      | Some node \<Rightarrow> val (variant (readValue node)))"

text \<open>\<open>UAOffNormalAlarm.prototype._onInputDataValueChange\<close>\<close>

definition onInputDataValueChange :: "addressSpace \<Rightarrow> alarm \<Rightarrow> DataValue \<Rightarrow> error + alarm" where
  "onInputDataValueChange space a dv =
     (if statusCode dv \<noteq> StatusCodes_Good then Inr a
      else if dataType (variant dv) = Null then Inr a
      else
        (let inputValue = val (variant dv) in
          (case getNormalStateValue space a of
             Inl e \<Rightarrow> Inl e
           | Inr normalStateValue \<Rightarrow> Inr (updateAlarmState a normalStateValue inputValue))))"

text \<open>\<open>UAOffNormalAlarm.prototype._onNormalStateDataValueChange\<close>\<close>

definition onNormalStateDataValueChange ::
  "addressSpace \<Rightarrow> alarm \<Rightarrow> DataValue \<Rightarrow> error + alarm" where
  "onNormalStateDataValueChange space a dv =
     (if statusCode dv \<noteq> StatusCodes_Good then Inr a
      else if dataType (variant dv) = Null then Inr a
      else
        let normalStateValue = val (variant dv);
            inputValue = getInputNodeValue space a
        in Inr (updateAlarmState a normalStateValue inputValue))"

section \<open>Construction\<close>

text \<open>
  The options object: its own properties. A property holds a reference to a node or, for
  \<open>optionals\<close>, a list of names.
\<close>

datatype optionValue = NodeRef nodeId | Names "string list"

type_synonym options = "string \<rightharpoonup> optionValue"

text \<open>
  Modelled from the spec: \<open>addressSpace._coerceNode\<close> is a method of the address space,
  which is not among the sources. It is the resolver of section 4.1: it gives the entity a
  reference stands for, or null when the reference maps to no live entity.
\<close>

definition coerceNode :: "addressSpace \<Rightarrow> optionValue option \<Rightarrow> UAVariable option" where
  "coerceNode space r =
     (case r of
        Some (NodeRef n) \<Rightarrow> findNode space n
      | _ \<Rightarrow> None)"

text \<open>
  Modelled from the spec: \<open>_installInputNodeMonitoring\<close> is inherited from the base alarm
  class, which is not among the sources. It is the half of step (d) of the bootstrap that
  the file leaves to the base class: the alarm keeps the node id of the input entity, and
  a listener on that entity hands every change to \<open>_onInputDataValueChange\<close>.
\<close>

definition installInputNodeMonitoring ::
  "addressSpace \<Rightarrow> alarm \<Rightarrow> optionValue option \<Rightarrow> addressSpace \<times> alarm" where
  "installInputNodeMonitoring space a r =
     (case coerceNode space r of
        None \<Rightarrow> (space, a)
      | Some node \<Rightarrow>
          (on space (Node (nodeId node)) InputDataValueChange, a\<lparr>inputNode := nodeId node\<rparr>))"

text \<open>
  \<open>UAOffNormalAlarm.instantiate\<close>. The construction of the base alarm,
  \<open>UADiscreteAlarm.instantiate\<close>, is not among the sources: it is the parameter
  \<open>base\<close>, a function of the address space and of the arguments it is handed, which
  gives the address space it leaves and the alarm object or the error it raises. The
  result holds the address space and the options object as the call leaves them, since
  what the call has done before an error stays done. The source asserts the key
  \<open>inputNode\<close> a second time after it has set \<open>optionals\<close>; that assertion repeats
  the first and cannot fail where it stands.
\<close>

type_synonym ('t, 'd) baseInstantiate =
  "addressSpace \<Rightarrow> 't \<Rightarrow> options \<Rightarrow> 'd \<Rightarrow> addressSpace \<times> (error + alarm)"

definition instantiate ::
  "('t, 'd) baseInstantiate \<Rightarrow> addressSpace \<Rightarrow> 't \<Rightarrow> options \<Rightarrow> 'd
     \<Rightarrow> addressSpace \<times> options \<times> (error + alarm)" where
  "instantiate base space limitAlarmTypeId opts data =
     (case findEventType space ''OffNormalAlarmType'' of
        None \<Rightarrow> (space, opts, Inl (Error ''cannot find offNormalAlarmType''))
      | Some offNormalAlarmType \<Rightarrow>
         (if opts ''inputNode'' = None
          then (space, opts, Inl (AssertionError ''must provide inputNode''))
          else if opts ''normalState'' = None
          then (space, opts, Inl (AssertionError ''must provide a normalState Node''))
          else
            (let opts1 = opts(''optionals'' \<mapsto>
                   (case opts ''optionals'' of None \<Rightarrow> Names [] | Some v \<Rightarrow> v))
             in
              (case base space limitAlarmTypeId opts1 data of
                 (space1, Inl e) \<Rightarrow> (space1, opts1, Inl e)
               | (space1, Inr alarmNode0) \<Rightarrow>
                  (let alarmNode = alarmNode0\<lparr>proto := UAOffNormalAlarm\<rparr> in
                    (case coerceNode space1 (opts1 ''inputNode'') of
                       None \<Rightarrow>
                         (space1, opts1, Inl (AssertionError ''Expecting a valid input node''))
                     | Some inputNode' \<Rightarrow>
                        (case coerceNode space1 (opts1 ''normalState'') of
                           None \<Rightarrow>
                             (space1, opts1,
                              Inl (AssertionError ''Expecting a valid normalState node''))
                         | Some normalState' \<Rightarrow>
                            (let alarmNode1 = alarmNode\<lparr>normalState := nodeId normalState'\<rparr>;
                                 (space2, alarmNode2) =
                                   installInputNodeMonitoring space1 alarmNode1
                                     (opts1 ''inputNode'');
                                 space3 = on space2 NormalStateProperty NormalStatePropertyChange;
                                 space4 = on space3 (Node (nodeId normalState'))
                                            NormalStateDataValueChange;
                                 alarmNode3 = updateAlarmState alarmNode2 JUndefined JUndefined
                             in (space4, opts1, Inr alarmNode3)))))))))"

section \<open>Deliveries of value changes\<close>

text \<open>
  The bodies of the listeners: the one the base class installs on the input entity, and
  the two that \<open>instantiate\<close> installs, on the property \<open>normalState\<close> of the alarm
  (an empty body) and on the normal-state entity.
\<close>

definition notify :: "addressSpace \<Rightarrow> alarm \<Rightarrow> listener \<Rightarrow> DataValue \<Rightarrow> error + alarm" where
  "notify space a l newDataValue =
     (case l of
        InputDataValueChange \<Rightarrow> onInputDataValueChange space a newDataValue
      | NormalStateDataValueChange \<Rightarrow> onNormalStateDataValueChange space a newDataValue
      | NormalStatePropertyChange \<Rightarrow> Inr a)"

text \<open>The listeners of an emitter run in the order of their registration; an error of
  one of them ends the emission.\<close>

fun emitValueChanged ::
  "addressSpace \<Rightarrow> (emitter \<times> listener) list \<Rightarrow> emitter \<Rightarrow> DataValue \<Rightarrow> alarm
     \<Rightarrow> error + alarm" where
  "emitValueChanged space [] e dv a = Inr a"
| "emitValueChanged space ((e', l) # ls) e dv a =
     (if e' = e
      then (case notify space a l dv of
              Inl err \<Rightarrow> Inl err
            | Inr a' \<Rightarrow> emitValueChanged space ls e dv a')
      else emitValueChanged space ls e dv a)"

text \<open>
  Modelled from the spec: the Value Change Monitor of section 4.2 belongs to the variables
  of the address space, which are not among the sources. Whenever the value of an entity
  changes, the entity holds the new data value and every handler subscribed to it is
  handed that data value, quality and value together. A change of an entity that is not
  in the address space is nothing.
\<close>

definition valueChanged ::
  "addressSpace \<times> alarm \<Rightarrow> nodeId \<Rightarrow> DataValue \<Rightarrow> error + addressSpace \<times> alarm" where
  "valueChanged w n dv =
     (case w of (space, a) \<Rightarrow>
       (case variables space n of
          None \<Rightarrow> Inr (space, a)
        | Some old \<Rightarrow>
           (let space' = space\<lparr>variables := (variables space)(n \<mapsto> dv)\<rparr> in
             (case emitValueChanged space' (listeners space') (Node n) dv a of
                Inl err \<Rightarrow> Inl err
              | Inr a' \<Rightarrow> Inr (space', a')))))"

datatype stream = InputStream | NormalStateStream

definition entityOf :: "alarm \<Rightarrow> stream \<Rightarrow> nodeId" where
  "entityOf a st = (case st of InputStream \<Rightarrow> inputNode a | NormalStateStream \<Rightarrow> normalState a)"

text \<open>A sequence of value changes on the two entities of an alarm, up to the first
  error.\<close>

fun run ::
  "addressSpace \<times> alarm \<Rightarrow> (stream \<times> DataValue) list \<Rightarrow> error + addressSpace \<times> alarm" where
  "run w [] = Inr w"
| "run w ((st, dv) # ds) =
     (case valueChanged w (entityOf (snd w) st) dv of
        Inl err \<Rightarrow> Inl err
      | Inr w' \<Rightarrow> run w' ds)"

section \<open>The update path as the spec words it\<close>





section \<open>Prototypes\<close>









section \<open>Concrete values\<close>

text \<open>The numbers 42, 7 and 9 as doubles, and data values of good and of bad quality
  carrying a value.\<close>

definition num42 :: jsval where
  "num42 = JNumber 0x4045000000000000"

definition num7 :: jsval where
  "num7 = JNumber 0x401C000000000000"

definition num9 :: jsval where
  "num9 = JNumber 0x4022000000000000"

definition good :: "DataType \<Rightarrow> jsval \<Rightarrow> DataValue" where
  "good t v = \<lparr>statusCode = StatusCodes_Good, variant = \<lparr>dataType = t, val = v\<rparr>\<rparr>"

definition StatusCodes_Bad :: statusCode where
  "StatusCodes_Bad = 0x80000000"

definition bad :: "DataType \<Rightarrow> jsval \<Rightarrow> DataValue" where
  "bad t v = \<lparr>statusCode = StatusCodes_Bad, variant = \<lparr>dataType = t, val = v\<rparr>\<rparr>"

text \<open>An address space with the event type, an input entity 1 holding 7 and a
  normal-state entity 2 holding 42; options naming both; a base construction that gives
  an alarm object with an active state of true.\<close>

definition space0 :: addressSpace where
  "space0 = \<lparr>eventTypes = [''OffNormalAlarmType''],
             variables = [1 \<mapsto> good Int32 num7, 2 \<mapsto> good Int32 num42],
             listeners = []\<rparr>"

definition opts0 :: options where
  "opts0 = [''inputNode'' \<mapsto> NodeRef 1, ''normalState'' \<mapsto> NodeRef 2]"

definition alarm0 :: alarm where
  "alarm0 = \<lparr>proto = UADiscreteAlarm, activeState = True, normalState = 0, inputNode = 0,
             conditions = []\<rparr>"

definition base0 :: "(unit, unit) baseInstantiate" where
  "base0 space t opts d = (space, Inr alarm0)"

text \<open>Options that lack one of the two required keys.\<close>

definition optsNoNormalState :: options where
  "optsNoNormalState = [''inputNode'' \<mapsto> NodeRef 1]"

definition optsNoInputNode :: options where
  "optsNoInputNode = [''normalState'' \<mapsto> NodeRef 2]"

text \<open>The address space and the alarm that \<open>instantiate\<close> leaves when it is run on
  \<open>space0\<close> with \<open>opts0\<close> and \<open>base0\<close>.\<close>

definition space1 :: addressSpace where
  "space1 = space0\<lparr>listeners :=
     [(Node 1, InputDataValueChange),
      (NormalStateProperty, NormalStatePropertyChange),
      (Node 2, NormalStateDataValueChange)]\<rparr>"

definition alarm1 :: alarm where
  "alarm1 = \<lparr>proto = UAOffNormalAlarm, activeState = False, normalState = 2, inputNode = 1,
             conditions = []\<rparr>"




definition activeEvent :: ConditionEvent where
  "activeEvent = \<lparr>transitionName = ''Active'', isActive = True, message = ''''\<rparr>"


text \<open>The input becomes 9, the normal state loses its value with a bad quality.\<close>

definition trace9 :: "(stream \<times> DataValue) list" where
  "trace9 = [(InputStream, good Int32 num9), (NormalStateStream, bad Null JNull)]"

definition space9 :: addressSpace where
  "space9 = space1\<lparr>variables := [1 \<mapsto> good Int32 num9, 2 \<mapsto> bad Null JNull]\<rparr>"

definition alarm9 :: alarm where
  "alarm9 = alarm1\<lparr>activeState := True, conditions := [activeEvent]\<rparr>"

text \<open>The input becomes 9 while the normal state is 42: the state this leaves.\<close>

definition trace3 :: "(stream \<times> DataValue) list" where
  "trace3 = [(InputStream, good Int32 num9)]"

definition space9a :: addressSpace where
  "space9a = space1\<lparr>variables := [2 \<mapsto> good Int32 num42, 1 \<mapsto> good Int32 num9]\<rparr>"

section \<open>The comparator on known values\<close>

lemma isNullOrUndefined_iff:
  "isNullOrUndefined v \<longleftrightarrow> typeOf v = TUndefined \<or> typeOf v = TNull"
  by (cases v) (simp_all add: isNullOrUndefined_def)

lemma strictEquals_same_type: "strictEquals v w \<Longrightarrow> typeOf v = typeOf w"
  by (cases v; cases w) simp_all

lemma updateAlarmState_known_active:
  assumes "\<not> isNullOrUndefined n" and "\<not> isNullOrUndefined i"
  shows "activeState (updateAlarmState a n i) = (\<not> strictEquals n i)"
  using assms
  by (auto simp add: updateAlarmState_def signalNewCondition_def isEqual_def Let_def)

lemma strictEquals_number:
  "\<not> isNaN x \<Longrightarrow> \<not> isNaN y \<Longrightarrow> \<not> (isZero x \<and> isZero y)
     \<Longrightarrow> strictEquals (JNumber x) (JNumber y) = (x = y)"
  by (auto simp add: numberEqual_def)

text \<open>Strict equality at work: equal and unequal numbers, a number and the string that
  spells it, NaN and itself, the two zeros, two objects.\<close>

lemma strictEquals_examples:
  "strictEquals num42 num42"
  "\<not> strictEquals num42 num7"
  "\<not> strictEquals num42 (JString ''42'')"
  "\<not> strictEquals (JNumber 0x7FF8000000000000) (JNumber 0x7FF8000000000000)"
  "strictEquals (JNumber 0x8000000000000000) (JNumber 0)"
  "\<not> strictEquals (JObject 1) (JObject 2)"
  by (simp_all add: num42_def num7_def numberEqual_def isNaN_def isZero_def)

text \<open>
  C1. In every run of the comparator on two known values (neither null nor undefined) the
  new active state is the negation of the strict equality \<open>===\<close> of the two values,
  whatever the state before: false for a strictly equal pair, true for any other pair.
  Strict equality has no coercion (\<open>strictEquals_same_type\<close>) and no tolerance
  (\<open>strictEquals_number\<close>).
\<close>

theorem C1_known_values_strict_equality:
  assumes "\<not> isNullOrUndefined n" and "\<not> isNullOrUndefined i"
  shows "activeState (updateAlarmState a n i) = (\<not> strictEquals n i)"
  using assms by (rule updateAlarmState_known_active)

theorem C1_known_values_witness:
  "\<not> isNullOrUndefined num42 \<and> \<not> isNullOrUndefined (JString ''42'')
   \<and> activeState (updateAlarmState (alarm0\<lparr>activeState := False\<rparr>) num42 (JString ''42''))
   \<and> \<not> activeState (updateAlarmState alarm0 num42 num42)"
proof -
  have k: "\<not> isNullOrUndefined num42" "\<not> isNullOrUndefined (JString ''42'')"
    by (simp_all add: isNullOrUndefined_def num42_def)
  show ?thesis
    using k C1_known_values_strict_equality [OF k(1) k(2), of "alarm0\<lparr>activeState := False\<rparr>"]
      C1_known_values_strict_equality [OF k(1) k(1), of alarm0]
    by (simp add: num42_def numberEqual_def isNaN_def isZero_def)
qed

section \<open>The comparator on an unknown value\<close>

lemma updateAlarmState_unknown:
  "isNullOrUndefined n \<or> isNullOrUndefined i
     \<Longrightarrow> updateAlarmState a n i = a\<lparr>activeState := False\<rparr>"
  by (simp add: updateAlarmState_def)

text \<open>
  C4. In every run of the comparator where the normal value or the input value is unknown,
  the alarm is left with an active state of false and is otherwise as it was: the result
  does not depend on the active state before the run, and no condition is signalled.
\<close>

theorem C4_unknown_value_sets_inactive:
  assumes "isNullOrUndefined n \<or> isNullOrUndefined i"
  shows "updateAlarmState a n i = a\<lparr>activeState := False\<rparr>
         \<and> \<not> activeState (updateAlarmState a n i)
         \<and> conditions (updateAlarmState a n i) = conditions a"
  using assms by (simp add: updateAlarmState_unknown)

theorem C4_unknown_value_witness:
  "(isNullOrUndefined JNull \<or> isNullOrUndefined num7)
   \<and> activeState alarm0
   \<and> updateAlarmState alarm0 JNull num7 = alarm0\<lparr>activeState := False\<rparr>
   \<and> conditions (updateAlarmState alarm0 JNull num7) = []"
proof -
  have h: "isNullOrUndefined JNull \<or> isNullOrUndefined num7"
    by (simp add: isNullOrUndefined_def)
  show ?thesis
    using h C4_unknown_value_sets_inactive [OF h, of alarm0]
    by (simp add: alarm0_def)
qed

section \<open>Deliveries the handlers ignore\<close>

lemmas eval_defs =
  valueChanged_def entityOf_def notify_def onInputDataValueChange_def
  onNormalStateDataValueChange_def getInputNodeValue_def getNormalStateValue_def
  getNormalStateNode_def findNode_def readValue_def updateAlarmState_def isNullOrUndefined_def
  isEqual_def signalNewCondition_def good_def bad_def StatusCodes_Good_def StatusCodes_Bad_def
  num42_def num7_def num9_def numberEqual_def isNaN_def isZero_def Let_def

lemma run_trace3: "run (space1, alarm1) trace3 = Inr (space9a, alarm9)"
  by (simp add: trace3_def space9a_def alarm9_def space1_def space0_def alarm1_def activeEvent_def
      eval_defs)

text \<open>
  C3, as the claim states it, fails: the handlers test the data type of the variant, not
  its value. A delivery of good quality whose variant is a ByteString with the value null
  passes both tests, reaches the comparator with an unknown value, and takes an active
  alarm to inactive. The alarm here is active because the input became 9 while the normal
  state was 42.
\<close>

theorem C3_null_value_counterexample:
  "run (space1, alarm1) trace3 = Inr (space9a, alarm9)
   \<and> activeState alarm9
   \<and> statusCode (good ByteString JNull) = StatusCodes_Good
   \<and> val (variant (good ByteString JNull)) = JNull
   \<and> onInputDataValueChange space9a alarm9 (good ByteString JNull)
       = Inr (alarm9\<lparr>activeState := False\<rparr>)
   \<and> onNormalStateDataValueChange space9a alarm9 (good ByteString JNull)
       = Inr (alarm9\<lparr>activeState := False\<rparr>)"
  using run_trace3
  by (simp add: space9a_def alarm9_def space1_def space0_def alarm1_def activeEvent_def
      onInputDataValueChange_def onNormalStateDataValueChange_def getInputNodeValue_def
      getNormalStateValue_def getNormalStateNode_def findNode_def readValue_def
      updateAlarmState_def isNullOrUndefined_def good_def StatusCodes_Good_def)

text \<open>
  C3, amended. A delivery on either stream whose status code is not \<open>Good\<close>, or whose
  variant is of data type \<open>Null\<close>, is a no-op of the handler: it returns normally and
  the alarm is as it was, active state and signalled conditions included, whatever the
  state before. The handlers have no other state to change. In the witness the handlers
  are run on an active alarm, once for each of the two tests, in a state where a good
  delivery of 42 on the input stream changes the alarm.
\<close>

theorem C3_suppressed_delivery_is_noop:
  assumes "statusCode dv \<noteq> StatusCodes_Good \<or> dataType (variant dv) = Null"
  shows "onInputDataValueChange space a dv = Inr a
         \<and> onNormalStateDataValueChange space a dv = Inr a"
  using assms
  by (auto simp add: onInputDataValueChange_def onNormalStateDataValueChange_def)

theorem C3_suppressed_delivery_witness:
  "statusCode (bad Int32 num42) \<noteq> StatusCodes_Good
   \<and> dataType (variant (good Null JNull)) = Null
   \<and> onInputDataValueChange space9a alarm9 (bad Int32 num42) = Inr alarm9
   \<and> onNormalStateDataValueChange space9a alarm9 (bad Int32 num42) = Inr alarm9
   \<and> onInputDataValueChange space9a alarm9 (good Null JNull) = Inr alarm9
   \<and> onNormalStateDataValueChange space9a alarm9 (good Null JNull) = Inr alarm9
   \<and> onInputDataValueChange space9a alarm9 (good Int32 num42) \<noteq> Inr alarm9"
proof -
  have b: "statusCode (bad Int32 num42) \<noteq> StatusCodes_Good"
    by (simp add: bad_def StatusCodes_Bad_def StatusCodes_Good_def)
  then have hb: "statusCode (bad Int32 num42) \<noteq> StatusCodes_Good
                   \<or> dataType (variant (bad Int32 num42)) = Null"
    by simp
  have n: "dataType (variant (good Null JNull)) = Null"
    by (simp add: good_def)
  then have hn: "statusCode (good Null JNull) \<noteq> StatusCodes_Good
                   \<or> dataType (variant (good Null JNull)) = Null"
    by simp
  have g: "onInputDataValueChange space9a alarm9 (good Int32 num42) \<noteq> Inr alarm9"
    by (simp add: space9a_def alarm9_def space1_def space0_def alarm1_def activeEvent_def
        eval_defs)
  show ?thesis
    using b n g C3_suppressed_delivery_is_noop [OF hb, of space9a alarm9]
      C3_suppressed_delivery_is_noop [OF hn, of space9a alarm9]
    by blast
qed

section \<open>Emission\<close>

lemma updateAlarmState_same:
  "(\<not> isNullOrUndefined n \<and> \<not> isNullOrUndefined i \<and> \<not> strictEquals n i) = activeState a
     \<Longrightarrow> updateAlarmState a n i = a"
  by (auto simp add: updateAlarmState_def isEqual_def Let_def)

lemma activeState_updateAlarmState:
  "activeState (updateAlarmState a n i)
     = (\<not> isNullOrUndefined n \<and> \<not> isNullOrUndefined i \<and> \<not> strictEquals n i)"
  by (auto simp add: updateAlarmState_def isEqual_def Let_def signalNewCondition_def)

lemma updateAlarmState_twice:
  "updateAlarmState (updateAlarmState a n i) n i = updateAlarmState a n i"
  by (rule updateAlarmState_same) (simp add: activeState_updateAlarmState)

lemma updateAlarmState_transition:
  assumes "\<not> isNullOrUndefined n" and "\<not> isNullOrUndefined i"
    and "(\<not> strictEquals n i) \<noteq> activeState a"
  shows "updateAlarmState a n i =
     a\<lparr>activeState := \<not> strictEquals n i,
       conditions := conditions a @
         [\<lparr>transitionName = (if \<not> strictEquals n i then ''Active'' else ''Inactive''),
           isActive = \<not> strictEquals n i, message = ''''\<rparr>]\<rparr>"
  using assms
  by (auto simp add: updateAlarmState_def isEqual_def Let_def signalNewCondition_def)

lemma updateAlarmState_conditions_length:
  "length (conditions (updateAlarmState a n i)) \<le> Suc (length (conditions a))"
  by (auto simp add: updateAlarmState_def isEqual_def Let_def signalNewCondition_def)

lemma updateAlarmState_fields:
  "proto (updateAlarmState a n i) = proto a"
  "normalState (updateAlarmState a n i) = normalState a"
  "inputNode (updateAlarmState a n i) = inputNode a"
  by (simp_all add: updateAlarmState_def signalNewCondition_def Let_def)

text \<open>
  C2, as the claim states it, fails: "each real transition emits exactly one event". An
  active alarm whose normal value is read as null is left inactive by the comparator, and
  no condition is signalled.
\<close>

theorem C2_silent_transition_counterexample:
  "activeState alarm0
   \<and> \<not> activeState (updateAlarmState alarm0 JNull num7)
   \<and> conditions (updateAlarmState alarm0 JNull num7) = conditions alarm0"
  by (simp add: updateAlarmState_def isNullOrUndefined_def alarm0_def)

text \<open>
  C2, amended. The new active flag of a run is true when both values are known and not
  strictly equal, false otherwise. In every run of the comparator, if the new flag is the
  current active state, the alarm is unchanged and no condition is signalled; a second
  run on the same pair changes nothing, so that the two runs together signal at most one
  condition; and a transition decided on two known values signals exactly one condition,
  named Active or Inactive after the new flag, carrying the new flag and an empty message.
\<close>

theorem C2_emission_idempotent:
  "((\<not> isNullOrUndefined n \<and> \<not> isNullOrUndefined i \<and> \<not> strictEquals n i) = activeState a
       \<longrightarrow> updateAlarmState a n i = a)
   \<and> updateAlarmState (updateAlarmState a n i) n i = updateAlarmState a n i
   \<and> length (conditions (updateAlarmState (updateAlarmState a n i) n i))
        \<le> Suc (length (conditions a))
   \<and> (\<not> isNullOrUndefined n \<and> \<not> isNullOrUndefined i \<and> (\<not> strictEquals n i) \<noteq> activeState a
       \<longrightarrow> updateAlarmState a n i =
            a\<lparr>activeState := \<not> strictEquals n i,
              conditions := conditions a @
                [\<lparr>transitionName = (if \<not> strictEquals n i then ''Active'' else ''Inactive''),
                  isActive = \<not> strictEquals n i, message = ''''\<rparr>]\<rparr>)"
  using updateAlarmState_same [of n i a] updateAlarmState_twice [of a n i]
    updateAlarmState_conditions_length [of a n i] updateAlarmState_transition [of n i a]
  by simp

theorem C2_emission_witness:
  "updateAlarmState (alarm0\<lparr>activeState := False\<rparr>) num42 num7
     = alarm0\<lparr>conditions := [\<lparr>transitionName = ''Active'', isActive = True, message = ''''\<rparr>]\<rparr>
   \<and> updateAlarmState (updateAlarmState (alarm0\<lparr>activeState := False\<rparr>) num42 num7) num42 num7
     = updateAlarmState (alarm0\<lparr>activeState := False\<rparr>) num42 num7
   \<and> updateAlarmState alarm0 num42 num7 = alarm0"
proof -
  let ?a = "alarm0\<lparr>activeState := False\<rparr>"
  have k: "\<not> isNullOrUndefined num42" "\<not> isNullOrUndefined num7" "\<not> strictEquals num42 num7"
    by (simp_all add: isNullOrUndefined_def num42_def num7_def numberEqual_def isNaN_def
        isZero_def)
  have t: "updateAlarmState ?a num42 num7
     = alarm0\<lparr>conditions := [\<lparr>transitionName = ''Active'', isActive = True, message = ''''\<rparr>]\<rparr>"
    using k C2_emission_idempotent [of num42 num7 ?a] by (simp add: alarm0_def)
  have tw: "updateAlarmState (updateAlarmState ?a num42 num7) num42 num7
     = updateAlarmState ?a num42 num7"
    using C2_emission_idempotent [of num42 num7 ?a] by blast
  have s: "updateAlarmState alarm0 num42 num7 = alarm0"
    using k C2_emission_idempotent [of num42 num7 alarm0] by (simp add: alarm0_def)
  from t tw s show ?thesis by blast
qed

section \<open>Construction\<close>

text \<open>
  C7, as the claim states it, fails: the guard on the event type comes before the two
  assertions on the options, so that in an address space without the event type
  \<open>OffNormalAlarmType\<close> a call whose options lack \<open>inputNode\<close> fails with the error of
  the guard, "cannot find offNormalAlarmType", and not with the precondition violation.
\<close>

theorem C7_missing_event_type_counterexample:
  "Map.empty ''inputNode'' = (None :: optionValue option)
   \<and> instantiate base0 (space0\<lparr>eventTypes := []\<rparr>) () Map.empty ()
      = (space0\<lparr>eventTypes := []\<rparr>, Map.empty, Inl (Error ''cannot find offNormalAlarmType''))"
  by (simp add: instantiate_def findEventType_def)

text \<open>
  C7, amended. Every call of \<open>instantiate\<close> whose options lack the key \<open>inputNode\<close> or
  the key \<open>normalState\<close> fails before any side effect: the address space and the
  options are as they were, whatever the construction of the base alarm would do, so that
  the base alarm is not built and no listener is installed. Where the address space has
  the event type \<open>OffNormalAlarmType\<close> the error is the failed assertion on the first
  missing key; where it has not, the error is that of the guard on the event type.
\<close>

theorem C7_missing_option_fails_before_side_effects:
  assumes "opts ''inputNode'' = None \<or> opts ''normalState'' = None"
  shows "instantiate base space t opts d =
     (space, opts,
      Inl (case findEventType space ''OffNormalAlarmType'' of
             None \<Rightarrow> Error ''cannot find offNormalAlarmType''
           | Some offNormalAlarmType \<Rightarrow>
               if opts ''inputNode'' = None then AssertionError ''must provide inputNode''
               else AssertionError ''must provide a normalState Node''))"
  using assms by (auto simp add: instantiate_def split: option.splits)

theorem C7_missing_option_witness:
  "instantiate base0 space0 () optsNoNormalState ()
     = (space0, optsNoNormalState, Inl (AssertionError ''must provide a normalState Node''))
   \<and> instantiate base0 space0 () optsNoInputNode ()
     = (space0, optsNoInputNode, Inl (AssertionError ''must provide inputNode''))"
proof -
  have e: "findEventType space0 ''OffNormalAlarmType'' = Some ''OffNormalAlarmType''"
    by (simp add: findEventType_def space0_def)
  have n: "optsNoNormalState ''inputNode'' \<noteq> None" "optsNoNormalState ''normalState'' = None"
    by (simp_all add: optsNoNormalState_def)
  have i: "optsNoInputNode ''inputNode'' = None"
    by (simp add: optsNoInputNode_def)
  have 1: "instantiate base0 space0 () optsNoNormalState ()
     = (space0, optsNoNormalState, Inl (AssertionError ''must provide a normalState Node''))"
    using C7_missing_option_fails_before_side_effects
            [of optsNoNormalState base0 space0 "()" "()"] e n
    by simp
  have 2: "instantiate base0 space0 () optsNoInputNode ()
     = (space0, optsNoInputNode, Inl (AssertionError ''must provide inputNode''))"
    using C7_missing_option_fails_before_side_effects
            [of optsNoInputNode base0 space0 "()" "()"] e i
    by simp
  from 1 2 show ?thesis by blast
qed

lemma instantiate_Inr:
  assumes "instantiate base space t opts d = (space', opts', Inr a)"
  shows "\<exists>a'. a = updateAlarmState a' JUndefined JUndefined"
  using assms
  by (auto simp add: instantiate_def Let_def split: option.splits if_splits prod.splits sum.splits)

lemma instantiate_proto:
  assumes "instantiate base space t opts d = (space', opts', Inr a)"
  shows "proto a = UAOffNormalAlarm"
  using assms
  by (auto simp add: instantiate_def Let_def installInputNodeMonitoring_def updateAlarmState_fields
      split: option.splits if_splits prod.splits sum.splits)

lemma instantiate_example:
  "instantiate base0 space0 () opts0 () = (space1, opts0(''optionals'' \<mapsto> Names []), Inr alarm1)"
  by (simp add: instantiate_def base0_def space0_def space1_def alarm1_def opts0_def
      findEventType_def coerceNode_def findNode_def installInputNodeMonitoring_def on_def
      updateAlarmState_def isNullOrUndefined_def Let_def alarm0_def)

lemma current_values_example:
  "getInputNodeValue space1 alarm1 = num7"
  "getNormalStateValue space1 alarm1 = Inr num42"
  "\<not> strictEquals num42 num7"
  by (simp_all add: getInputNodeValue_def getNormalStateValue_def getNormalStateNode_def
      findNode_def readValue_def space1_def space0_def alarm1_def good_def num42_def num7_def
      numberEqual_def isNaN_def isZero_def)

text \<open>
  C5. Every successful call of \<open>instantiate\<close> ends with one run of the comparator on two
  undefined values, the call \<open>_updateAlarmState()\<close> without arguments, so that the alarm
  it returns is inactive whatever the input entity and the normal-state entity hold. In
  the witness the input entity holds 7 and the normal-state entity holds 42, and the base
  construction hands over an active alarm.
\<close>

theorem C5_initial_state_inactive:
  assumes "instantiate base space t opts d = (space', opts', Inr a)"
  shows "\<not> activeState a \<and> (\<exists>a'. a = updateAlarmState a' JUndefined JUndefined)"
proof -
  obtain a' where a: "a = updateAlarmState a' JUndefined JUndefined"
    using instantiate_Inr [OF assms] by blast
  have "\<not> activeState (updateAlarmState a' JUndefined JUndefined)"
    by (simp add: updateAlarmState_def isNullOrUndefined_def)
  with a show ?thesis by blast
qed

theorem C5_initial_state_witness:
  "instantiate base0 space0 () opts0 () = (space1, opts0(''optionals'' \<mapsto> Names []), Inr alarm1)
   \<and> getInputNodeValue space1 alarm1 = num7
   \<and> getNormalStateValue space1 alarm1 = Inr num42
   \<and> \<not> strictEquals num42 num7
   \<and> \<not> activeState alarm1"
  using instantiate_example current_values_example
    C5_initial_state_inactive [OF instantiate_example]
  by blast

section \<open>The update path\<close>







section \<open>A silent deactivation\<close>

lemma run_trace9: "run (space1, alarm1) trace9 = Inr (space9, alarm9)"
  by (simp add: trace9_def space9_def alarm9_def space1_def space0_def alarm1_def activeEvent_def
      eval_defs)

lemma silent_step:
  "valueChanged (space9, alarm9) (inputNode alarm9) (good Int32 num7)
     = Inr (space9\<lparr>variables := (variables space9)(1 \<mapsto> good Int32 num7)\<rparr>,
            alarm9\<lparr>activeState := False\<rparr>)"
  by (simp add: space9_def alarm9_def space1_def space0_def alarm1_def activeEvent_def eval_defs)

text \<open>
  C9. There are a state reached from a successful construction by value changes of the two
  entities, and a delivery of good quality and of a value that is not null, that take the
  alarm from active to inactive while no condition is signalled. The alarm is constructed;
  the input becomes 9 while the normal state is 42, which makes the alarm active; the
  normal-state entity loses its value with a bad quality, which its handler ignores; the
  input then becomes 7, the read of the normal state gives null, and the comparator sets
  the active state to false and returns.
\<close>

theorem C9_silent_deactivation_reachable:
  "\<exists>(base :: (unit, unit) baseInstantiate) space opts space' opts' a0 tr space'' a dv space''' a'.
     instantiate base space () opts () = (space', opts', Inr a0)
     \<and> run (space', a0) tr = Inr (space'', a)
     \<and> statusCode dv = StatusCodes_Good
     \<and> dataType (variant dv) \<noteq> Null
     \<and> \<not> isNullOrUndefined (val (variant dv))
     \<and> activeState a
     \<and> valueChanged (space'', a) (inputNode a) dv = Inr (space''', a')
     \<and> \<not> activeState a'
     \<and> conditions a' = conditions a"
proof -
  have "statusCode (good Int32 num7) = StatusCodes_Good"
    "dataType (variant (good Int32 num7)) \<noteq> Null"
    "\<not> isNullOrUndefined (val (variant (good Int32 num7)))"
    "activeState alarm9" "\<not> activeState (alarm9\<lparr>activeState := False\<rparr>)"
    "conditions (alarm9\<lparr>activeState := False\<rparr>) = conditions alarm9"
    by (simp_all add: good_def num7_def isNullOrUndefined_def alarm9_def)
  with instantiate_example run_trace9 silent_step show ?thesis
    by blast
qed

section \<open>The unsupported write\<close>

lemma setNormalStateValue_fails:
  "setNormalStateValue space a v =
     Inl (case findNode space (normalState a) of
            None \<Rightarrow> AssertionError ''getNormalStateNode ''
          | Some node \<Rightarrow> Error ''Not Implemented yet'')"
  by (simp add: setNormalStateValue_def getNormalStateNode_def split: option.splits)

text \<open>The alarm that \<open>instantiate\<close> returns names a normal-state node that is in the
  address space, and value changes keep it there.\<close>

lemma coerceNode_found:
  "coerceNode space r = Some node \<Longrightarrow> variables space (nodeId node) \<noteq> None"
  by (auto simp add: coerceNode_def findNode_def split: option.splits optionValue.splits)

lemma installInputNodeMonitoring_keeps:
  "installInputNodeMonitoring space a r = (space', a')
     \<Longrightarrow> variables space' = variables space \<and> normalState a' = normalState a"
  by (auto simp add: installInputNodeMonitoring_def on_def split: option.splits)

lemma instantiate_normalState_found:
  assumes "instantiate base space t opts d = (space', opts', Inr a)"
  shows "variables space' (normalState a) \<noteq> None"
  using assms
  by (auto simp add: instantiate_def Let_def on_def updateAlarmState_fields
      dest!: installInputNodeMonitoring_keeps coerceNode_found
      split: option.splits if_splits prod.splits sum.splits)

lemma notify_normalState:
  "notify space a l dv = Inr a' \<Longrightarrow> normalState a' = normalState a"
  by (auto simp add: notify_def onInputDataValueChange_def onNormalStateDataValueChange_def
      updateAlarmState_fields Let_def split: listener.splits if_splits sum.splits)

lemma emitValueChanged_normalState:
  "emitValueChanged space ls e dv a = Inr a' \<Longrightarrow> normalState a' = normalState a"
proof (induction ls arbitrary: a)
  case Nil
  then show ?case by simp
next
  case (Cons p ls)
  obtain e' l where p: "p = (e', l)" by (cases p)
  show ?case
  proof (cases "e' = e")
    case True
    with Cons.prems p obtain a1 where n: "notify space a l dv = Inr a1"
      and r: "emitValueChanged space ls e dv a1 = Inr a'"
      by (auto split: sum.splits)
    from Cons.IH [OF r] notify_normalState [OF n] show ?thesis by simp
  next
    case False
    with Cons.prems p have "emitValueChanged space ls e dv a = Inr a'" by simp
    from Cons.IH [OF this] show ?thesis .
  qed
qed

lemma valueChanged_normalState_found:
  assumes "valueChanged (space, a) n dv = Inr (space', a')"
    and "variables space (normalState a) \<noteq> None"
  shows "variables space' (normalState a') \<noteq> None"
  using assms
  by (auto simp add: valueChanged_def Let_def dest!: emitValueChanged_normalState
      split: option.splits sum.splits if_splits)

lemma run_normalState_found:
  "run w tr = Inr w' \<Longrightarrow> variables (fst w) (normalState (snd w)) \<noteq> None
     \<Longrightarrow> variables (fst w') (normalState (snd w')) \<noteq> None"
proof (induction tr arbitrary: w)
  case Nil
  then show ?case by simp
next
  case (Cons p tr)
  obtain st dv where p: "p = (st, dv)" by (cases p)
  obtain space a where w: "w = (space, a)" by (cases w)
  from Cons.prems(1) p obtain w1 where s: "valueChanged w (entityOf (snd w) st) dv = Inr w1"
    and r: "run w1 tr = Inr w'"
    by (auto split: sum.splits)
  obtain space1' a1 where w1: "w1 = (space1', a1)" by (cases w1)
  from valueChanged_normalState_found [of space a _ dv space1' a1] s w w1 Cons.prems(2)
  have "variables (fst w1) (normalState (snd w1)) \<noteq> None" by simp
  from Cons.IH [OF r this] show ?case .
qed

text \<open>
  C8. For every value, \<open>setNormalStateValue\<close> called on an alarm that \<open>instantiate\<close>
  has built, after any sequence of value changes of its two entities, raises the error
  "Not Implemented yet": it returns nothing, so that it is never a silent no-op and never
  succeeds, and it writes nothing, neither to the alarm nor to the address space. The
  lookup of the normal-state node that comes before the error always finds the node in
  such a state.
\<close>

theorem C8_setNormalStateValue_not_implemented:
  assumes "instantiate base space t opts d = (space', opts', Inr a0)"
    and "run (space', a0) tr = Inr (space'', a)"
  shows "setNormalStateValue space'' a v = Inl (Error ''Not Implemented yet'')"
proof -
  have "variables space' (normalState a0) \<noteq> None"
    using assms(1) by (rule instantiate_normalState_found)
  with run_normalState_found [OF assms(2)]
  have "variables space'' (normalState a) \<noteq> None" by simp
  then show ?thesis
    by (auto simp add: setNormalStateValue_fails findNode_def)
qed

theorem C8_setNormalStateValue_witness:
  "instantiate base0 space0 () opts0 () = (space1, opts0(''optionals'' \<mapsto> Names []), Inr alarm1)
   \<and> run (space1, alarm1) trace9 = Inr (space9, alarm9)
   \<and> setNormalStateValue space9 alarm9 num7 = Inl (Error ''Not Implemented yet'')"
  using instantiate_example run_trace9
    C8_setNormalStateValue_not_implemented [OF instantiate_example run_trace9, of num7]
  by blast

section \<open>The system off-normal alarm\<close>











end
